theory Spec2Isabelle
  imports Complex_Main "HOL-Library.Sublist" "HOL-Library.AList"
begin

section \<open>Paths, names and extensions\<close>

text \<open>
  A path is the list of its components below the filesystem root; the root itself is
  the empty list. File names and file contents are byte strings (\<open>char list\<close>).
\<close>

type_synonym path = "string list"
type_synonym bytes = "char list"

text \<open>
  \<^verbatim>\<open>str.lower\<close> on the ASCII range: the letters A to Z move to a to z and every other
  byte is kept. (Python also maps letters outside ASCII; none of them becomes one of the
  characters of \<^verbatim>\<open>.pdf\<close>, which is all the program compares the result with.)
\<close>

definition ascii_uppercase :: string where
  "ascii_uppercase = ''ABCDEFGHIJKLMNOPQRSTUVWXYZ''"

definition ascii_lowercase :: string where
  "ascii_lowercase = ''abcdefghijklmnopqrstuvwxyz''"

definition char_lower :: "char \<Rightarrow> char" where
  "char_lower c =
     (case map_of (zip ascii_uppercase ascii_lowercase) c of None \<Rightarrow> c | Some d \<Rightarrow> d)"

definition str_lower :: "string \<Rightarrow> string" where
  "str_lower s = map char_lower s"

text \<open>\<^verbatim>\<open>str.rfind\<close> for a single character: the highest index holding it, or -1.\<close>

fun rfind :: "string \<Rightarrow> char \<Rightarrow> int" where
  "rfind [] c = - 1"
| "rfind (x # xs) c =
     (let r = rfind xs c in if 0 \<le> r then r + 1 else if x = c then 0 else - 1)"

text \<open>\<^verbatim>\<open>PurePath.name\<close>: the final component, empty for the root.\<close>

definition path_name :: "path \<Rightarrow> string" where
  "path_name p = (if p = [] then [] else last p)"

text \<open>
  \<^verbatim>\<open>PurePath.suffix\<close> as pathlib defines it:
  \<^verbatim>\<open>i = name.rfind('.'); return name[i:] if 0 < i < len(name) - 1 else ''\<close>.
  (Python 3.14 reads the suffix with \<^verbatim>\<open>os.path.splitext\<close> instead; the two differ only on
  names that end in a dot or whose stem consists of dots.)
\<close>

definition name_suffix :: "string \<Rightarrow> string" where
  "name_suffix name =
     (let i = rfind name (CHR ''.'') in
      if 0 < i \<and> i < int (length name) - 1 then drop (nat i) name else [])"

definition suffix_of :: "path \<Rightarrow> string" where
  "suffix_of p = name_suffix (path_name p)"

text \<open>The test of line 72: \<^verbatim>\<open>p.suffix.lower() == ".pdf"\<close>.\<close>

definition is_pdf :: "path \<Rightarrow> bool" where
  "is_pdf p \<longleftrightarrow> str_lower (suffix_of p) = ''.pdf''"

text \<open>
  Lines 72 and 73 of \<^verbatim>\<open>main\<close>:
  \<^verbatim>\<open>pdf_files = [p for p in all_files if p.suffix.lower() == ".pdf"]\<close> and
  \<^verbatim>\<open>other_files = [p for p in all_files if p not in pdf_files]\<close>.
\<close>

definition pdf_files_of :: "path list \<Rightarrow> path list" where
  "pdf_files_of all_files = [p \<leftarrow> all_files. is_pdf p]"

definition other_files_of :: "path list \<Rightarrow> path list" where
  "other_files_of all_files = [p \<leftarrow> all_files. p \<notin> set (pdf_files_of all_files)]"

section \<open>Errors\<close>

datatype error =
    SystemExit string path
  | FileExistsError
  | FileNotFoundError
  | NotADirectoryError
  | IsADirectoryError
  | SameFileError
  | PdfReadError
  | IndexError
  | ValueError
  | ZeroDivisionError

type_synonym 'a result = "error + 'a"

section \<open>The page transformer\<close>

text \<open>
  pypdf's \<^verbatim>\<open>Transformation\<close> holds the six entries \<open>(a, b, c, d, e, f)\<close> of the matrix
  \<open>((a, b, 0), (c, d, 0), (e, f, 1))\<close>. \<^verbatim>\<open>Transformation()\<close> is the identity and
  \<^verbatim>\<open>scale(sx, sy)\<close> multiplies the matrix from the right by \<open>diag(sx, sy, 1)\<close>.
  Python floats are taken as real numbers: rounding, infinities and NaN are outside
  the model.
\<close>

datatype Transformation = Ctm real real real real real real

definition Transformation_new :: Transformation where
  "Transformation_new = Ctm 1 0 0 1 0 0"

fun scale :: "Transformation \<Rightarrow> real \<Rightarrow> real \<Rightarrow> Transformation" where
  "scale (Ctm a b c d e f) sx sy = Ctm (a * sx) (b * sy) (c * sx) (d * sy) (e * sx) (f * sy)"

text \<open>Python's \<^verbatim>\<open>/\<close> on floats raises on a zero divisor.\<close>

definition truediv :: "real \<Rightarrow> real \<Rightarrow> real result" where
  "truediv a b = (if b = 0 then Inl ZeroDivisionError else Inr (a / b))"

text \<open>
  The PDF library is a parameter of the model: what it parses out of a file, how it
  merges one page onto another and what it writes are not part of this program.
\<close>

datatype canvas_op =
    SetFillAlpha real
  | SetFillColorRGB real real real
  | SetFont string nat
  | SaveState
  | Translate real real
  | Rotate real
  | DrawCentredString real real string
  | RestoreState

record 'p pdflib =
  reader_pages :: "bytes \<Rightarrow> 'p list result"
  mediabox_width :: "'p \<Rightarrow> real"
  mediabox_height :: "'p \<Rightarrow> real"
  merge_transformed_page :: "'p \<Rightarrow> 'p \<Rightarrow> Transformation \<Rightarrow> 'p"
  writer_write :: "'p list \<Rightarrow> bytes"
  canvas_save :: "real \<times> real \<Rightarrow> canvas_op list \<Rightarrow> bytes"

definition scale_stamp_to_page :: "'p pdflib \<Rightarrow> 'p \<Rightarrow> 'p \<Rightarrow> Transformation result" where
  "scale_stamp_to_page L stamp_page content_page =
     (let sw = mediabox_width L stamp_page;
          sh = mediabox_height L stamp_page;
          cw = mediabox_width L content_page;
          ch = mediabox_height L content_page
      in if sw \<le> 0 \<or> sh \<le> 0 then Inr Transformation_new
         else (case truediv cw sw of
                 Inl e \<Rightarrow> Inl e
               | Inr sx \<Rightarrow>
                   (case truediv ch sh of
                      Inl e \<Rightarrow> Inl e
                    | Inr sy \<Rightarrow> Inr (scale Transformation_new sx sy))))"

section \<open>The filesystem\<close>

text \<open>
  A file carries its bytes and the metadata that \<^verbatim>\<open>shutil.copystat\<close> transfers
  (permission bits and the two timestamps). The filesystem is an association list from
  paths to nodes; the order of the list stands for the order in which a directory
  traversal meets the entries. The root directory always exists and is not stored.
  Symbolic links, permissions and a full disk are outside the model.
\<close>

record stat =
  st_mode :: nat
  st_atime :: nat
  st_mtime :: nat

datatype node = Dir | File bytes stat

type_synonym filesystem = "(path \<times> node) list"

definition lookup :: "filesystem \<Rightarrow> path \<Rightarrow> node option" where
  "lookup fs p = (if p = [] then Some Dir else map_of fs p)"

definition is_dir :: "filesystem \<Rightarrow> path \<Rightarrow> bool" where
  "is_dir fs p \<longleftrightarrow> lookup fs p = Some Dir"

definition is_file :: "filesystem \<Rightarrow> path \<Rightarrow> bool" where
  "is_file fs p \<longleftrightarrow> (case lookup fs p of Some (File c st) \<Rightarrow> True | _ \<Rightarrow> False)"


text \<open>\<^verbatim>\<open>root.rglob("*")\<close>: every entry strictly below the directory, of any kind.\<close>

definition rglob :: "filesystem \<Rightarrow> path \<Rightarrow> path list" where
  "rglob fs d = [p \<leftarrow> map fst fs. strict_prefix d p]"

text \<open>\<^verbatim>\<open>PurePath.relative_to\<close>.\<close>

definition relative_to :: "path \<Rightarrow> path \<Rightarrow> path result" where
  "relative_to p other =
     (if prefix other p then Inr (drop (length other) p) else Inl ValueError)"

text \<open>\<^verbatim>\<open>os.mkdir\<close>.\<close>

definition os_mkdir :: "path \<Rightarrow> filesystem \<Rightarrow> filesystem result" where
  "os_mkdir p fs =
     (if lookup fs p \<noteq> None then Inl FileExistsError
      else (case lookup fs (butlast p) of
              None \<Rightarrow> Inl FileNotFoundError
            | Some (File c st) \<Rightarrow> Inl NotADirectoryError
            | Some Dir \<Rightarrow> Inr (AList.update p Dir fs)))"

text \<open>
  \<^verbatim>\<open>Path.mkdir(parents=False, exist_ok=True)\<close>: a missing parent is raised, any other
  failure of \<^verbatim>\<open>os.mkdir\<close> is forgiven when the path is a directory.
\<close>

definition mkdir_exist_ok :: "path \<Rightarrow> filesystem \<Rightarrow> unit result \<times> filesystem" where
  "mkdir_exist_ok p fs =
     (case os_mkdir p fs of
        Inr fs' \<Rightarrow> (Inr (), fs')
      | Inl e \<Rightarrow>
          if e = FileNotFoundError then (Inl e, fs)
          else if is_dir fs p then (Inr (), fs) else (Inl e, fs))"

text \<open>
  \<^verbatim>\<open>Path.mkdir(parents=True, exist_ok=True)\<close>: on a missing parent the parent is made
  first (unless the path is its own parent) and the directory is then made without
  \<^verbatim>\<open>parents\<close>.
\<close>

function mkdir_parents :: "path \<Rightarrow> filesystem \<Rightarrow> unit result \<times> filesystem" where
  "mkdir_parents p fs =
     (case os_mkdir p fs of
        Inr fs' \<Rightarrow> (Inr (), fs')
      | Inl e \<Rightarrow>
          if e = FileNotFoundError then
            (if p = [] then (Inl e, fs)
             else (case mkdir_parents (butlast p) fs of
                     (Inl e', fs1) \<Rightarrow> (Inl e', fs1)
                   | (Inr u, fs1) \<Rightarrow> mkdir_exist_ok p fs1))
          else if is_dir fs p then (Inr (), fs) else (Inl e, fs))"
  by pat_completeness auto
termination
  by (relation "measure (\<lambda>(p, fs). length p)") auto

text \<open>
  The environment of a run: the directory of the script, the name
  \<^verbatim>\<open>tempfile.NamedTemporaryFile\<close> picks, and the metadata the system gives a file it
  creates.
\<close>

record env =
  script_dir :: path
  tmp_name :: path
  fresh_stat :: stat

text \<open>\<^verbatim>\<open>open(p, "wb")\<close>, writing \<open>data\<close> and closing: the file is created or replaced.\<close>

definition open_wb_write :: "env \<Rightarrow> path \<Rightarrow> bytes \<Rightarrow> filesystem \<Rightarrow> filesystem result" where
  "open_wb_write E p data fs =
     (case lookup fs p of
        Some Dir \<Rightarrow> Inl IsADirectoryError
      | Some (File c st) \<Rightarrow>
          Inr (AList.update p (File data (st\<lparr>st_mtime := st_mtime (fresh_stat E)\<rparr>)) fs)
      | None \<Rightarrow>
          (case lookup fs (butlast p) of
             None \<Rightarrow> Inl FileNotFoundError
           | Some (File c st) \<Rightarrow> Inl NotADirectoryError
           | Some Dir \<Rightarrow> Inr (AList.update p (File data (fresh_stat E)) fs)))"

text \<open>Reading a file's bytes.\<close>

definition read_bytes :: "path \<Rightarrow> filesystem \<Rightarrow> bytes result" where
  "read_bytes p fs =
     (case lookup fs p of
        None \<Rightarrow> Inl FileNotFoundError
      | Some Dir \<Rightarrow> Inl IsADirectoryError
      | Some (File c st) \<Rightarrow> Inr c)"

text \<open>\<^verbatim>\<open>PdfReader(p).pages\<close>: read the file, let the library parse it.\<close>

definition PdfReader :: "'p pdflib \<Rightarrow> path \<Rightarrow> filesystem \<Rightarrow> 'p list result" where
  "PdfReader L p fs = (case read_bytes p fs of Inl e \<Rightarrow> Inl e | Inr c \<Rightarrow> reader_pages L c)"

text \<open>
  \<^verbatim>\<open>shutil.copy2(src, dst)\<close>: into \<open>dst\<close>, or into \<open>dst / src.name\<close> when \<open>dst\<close> is a
  directory; bytes and metadata of the source are given to the target.
\<close>

definition copy2 :: "path \<Rightarrow> path \<Rightarrow> filesystem \<Rightarrow> filesystem result" where
  "copy2 src dst fs =
     (let dst' = (if is_dir fs dst then dst @ [path_name src] else dst) in
      if src = dst' \<and> lookup fs src \<noteq> None then Inl SameFileError
      else (case lookup fs src of
              None \<Rightarrow> Inl FileNotFoundError
            | Some Dir \<Rightarrow> Inl IsADirectoryError
            | Some (File c st) \<Rightarrow>
                (case lookup fs dst' of
                   Some Dir \<Rightarrow> Inl IsADirectoryError
                 | Some (File c' st') \<Rightarrow> Inr (AList.update dst' (File c st) fs)
                 | None \<Rightarrow>
                     (case lookup fs (butlast dst') of
                        None \<Rightarrow> Inl FileNotFoundError
                      | Some (File c' st') \<Rightarrow> Inl NotADirectoryError
                      | Some Dir \<Rightarrow> Inr (AList.update dst' (File c st) fs)))))"

text \<open>\<^verbatim>\<open>Path.unlink(missing_ok)\<close>.\<close>

definition unlink :: "path \<Rightarrow> bool \<Rightarrow> filesystem \<Rightarrow> filesystem result" where
  "unlink p missing_ok fs =
     (case lookup fs p of
        None \<Rightarrow> if missing_ok then Inr fs else Inl FileNotFoundError
      | Some Dir \<Rightarrow> Inl IsADirectoryError
      | Some (File c st) \<Rightarrow> Inr (AList.delete p fs))"

text \<open>
  \<^verbatim>\<open>tempfile.NamedTemporaryFile(suffix=".pdf", delete=False)\<close>, left by its \<^verbatim>\<open>with\<close>
  block: a new, empty file under the name the environment picked.
\<close>

definition NamedTemporaryFile :: "env \<Rightarrow> filesystem \<Rightarrow> filesystem result" where
  "NamedTemporaryFile E fs =
     (if lookup fs (tmp_name E) \<noteq> None then Inl FileExistsError
      else (case lookup fs (butlast (tmp_name E)) of
              Some Dir \<Rightarrow> Inr (AList.update (tmp_name E) (File [] (fresh_stat E)) fs)
            | Some (File c st) \<Rightarrow> Inl NotADirectoryError
            | None \<Rightarrow> Inl FileNotFoundError))"

section \<open>The program\<close>

definition SOURCE_FOLDER :: "env \<Rightarrow> path" where
  "SOURCE_FOLDER E = script_dir E @ [''docs'']"

definition OUTPUT_FOLDER :: "env \<Rightarrow> path" where
  "OUTPUT_FOLDER E = script_dir E @ [''docs - watermarked'']"

definition WATERMARK_TEXT :: string where
  "WATERMARK_TEXT = ''Uniquement projet immo T1 2026''"

text \<open>reportlab's A4, in points.\<close>

definition A4 :: "real \<times> real" where
  "A4 = (210 * (72 / 2.54 * 0.1), 297 * (72 / 2.54 * 0.1))"

definition create_watermark_pdf ::
  "env \<Rightarrow> 'p pdflib \<Rightarrow> path \<Rightarrow> filesystem \<Rightarrow> filesystem result" where
  "create_watermark_pdf E L output_path fs =
     (case A4 of (w, h) \<Rightarrow>
        open_wb_write E output_path
          (canvas_save L A4
             [SetFillAlpha 0.25, SetFillColorRGB 0.4 0.4 0.4, SetFont ''Helvetica-Bold'' 32,
              SaveState, Translate (w / 2) (h / 2), Rotate 45,
              DrawCentredString 0 0 WATERMARK_TEXT, RestoreState]) fs)"

text \<open>
  The loop of \<^verbatim>\<open>watermark_pdf\<close>; the last argument is the writer's page list so far,
  \<^verbatim>\<open>writer.add_page\<close> appends to it.
\<close>

fun merge_pages :: "'p pdflib \<Rightarrow> 'p \<Rightarrow> 'p list \<Rightarrow> 'p list \<Rightarrow> 'p list result" where
  "merge_pages L stamp_page [] writer = Inr writer"
| "merge_pages L stamp_page (page # pages) writer =
     (case scale_stamp_to_page L stamp_page page of
        Inl e \<Rightarrow> Inl e
      | Inr t \<Rightarrow>
          merge_pages L stamp_page pages
            (writer @ [merge_transformed_page L page stamp_page t]))"

definition watermark_pdf ::
  "env \<Rightarrow> 'p pdflib \<Rightarrow> path \<Rightarrow> path \<Rightarrow> 'p \<Rightarrow> filesystem \<Rightarrow> unit result \<times> filesystem" where
  "watermark_pdf E L input_path output_path stamp_page fs =
     (case PdfReader L input_path fs of
        Inl e \<Rightarrow> (Inl e, fs)
      | Inr pages \<Rightarrow>
          (case merge_pages L stamp_page pages [] of
             Inl e \<Rightarrow> (Inl e, fs)
           | Inr writer \<Rightarrow>
               (case mkdir_parents (butlast output_path) fs of
                  (Inl e, fs1) \<Rightarrow> (Inl e, fs1)
                | (Inr u, fs1) \<Rightarrow>
                    (case open_wb_write E output_path (writer_write L writer) fs1 of
                       Inl e \<Rightarrow> (Inl e, fs1)
                     | Inr fs2 \<Rightarrow> (Inr (), fs2)))))"

text \<open>What the program prints, by format and arguments.\<close>

datatype line =
    NoFilesFound path
  | Watermarking path
  | Copied path
  | Done nat nat path

record world =
  files :: filesystem
  stdout :: "line list"

definition print :: "line \<Rightarrow> world \<Rightarrow> world" where
  "print l w = w\<lparr>stdout := stdout w @ [l]\<rparr>"

text \<open>A \<^verbatim>\<open>for\<close> loop whose body may raise: the first error ends the loop.\<close>

fun for_each ::
  "('a \<Rightarrow> world \<Rightarrow> unit result \<times> world) \<Rightarrow> 'a list \<Rightarrow> world \<Rightarrow> unit result \<times> world" where
  "for_each body [] w = (Inr (), w)"
| "for_each body (x # xs) w =
     (case body x w of
        (Inl e, w') \<Rightarrow> (Inl e, w')
      | (Inr u, w') \<Rightarrow> for_each body xs w')"

text \<open>The body of the first loop of \<^verbatim>\<open>main\<close> (lines 86 to 89).\<close>

definition watermark_step ::
  "env \<Rightarrow> 'p pdflib \<Rightarrow> 'p \<Rightarrow> path \<Rightarrow> world \<Rightarrow> unit result \<times> world" where
  "watermark_step E L stamp_page pdf_path w =
     (case relative_to pdf_path (SOURCE_FOLDER E) of
        Inl e \<Rightarrow> (Inl e, w)
      | Inr rel \<Rightarrow>
          (let out_path = OUTPUT_FOLDER E @ rel;
               w1 = print (Watermarking rel) w
           in case watermark_pdf E L pdf_path out_path stamp_page (files w1) of
                (r, fs') \<Rightarrow> (r, w1\<lparr>files := fs'\<rparr>)))"

text \<open>The body of the second loop (lines 92 to 96).\<close>

definition copy_step :: "env \<Rightarrow> path \<Rightarrow> world \<Rightarrow> unit result \<times> world" where
  "copy_step E other_path w =
     (case relative_to other_path (SOURCE_FOLDER E) of
        Inl e \<Rightarrow> (Inl e, w)
      | Inr rel \<Rightarrow>
          (let out_path = OUTPUT_FOLDER E @ rel
           in case mkdir_parents (butlast out_path) (files w) of
                (Inl e, fs1) \<Rightarrow> (Inl e, w\<lparr>files := fs1\<rparr>)
              | (Inr u, fs1) \<Rightarrow>
                  (case copy2 other_path out_path fs1 of
                     Inl e \<Rightarrow> (Inl e, w\<lparr>files := fs1\<rparr>)
                   | Inr fs2 \<Rightarrow> (Inr (), print (Copied rel) (w\<lparr>files := fs2\<rparr>)))))"

text \<open>Line 71: \<^verbatim>\<open>[p for p in SOURCE_FOLDER.rglob("*") if p.is_file()]\<close>.\<close>

definition all_files_of :: "filesystem \<Rightarrow> path \<Rightarrow> path list" where
  "all_files_of fs d = [p \<leftarrow> rglob fs d. is_file fs p]"

text \<open>The \<^verbatim>\<open>try\<close> block of \<^verbatim>\<open>main\<close> (lines 82 to 98).\<close>

definition try_block ::
  "env \<Rightarrow> 'p pdflib \<Rightarrow> path list \<Rightarrow> path list \<Rightarrow> world \<Rightarrow> unit result \<times> world" where
  "try_block E L pdf_files other_files w =
     (case create_watermark_pdf E L (tmp_name E) (files w) of
        Inl e \<Rightarrow> (Inl e, w)
      | Inr fs1 \<Rightarrow>
          (let w1 = w\<lparr>files := fs1\<rparr> in
           case PdfReader L (tmp_name E) fs1 of
             Inl e \<Rightarrow> (Inl e, w1)
           | Inr [] \<Rightarrow> (Inl IndexError, w1)
           | Inr (stamp_page # others) \<Rightarrow>
               (case for_each (watermark_step E L stamp_page) pdf_files w1 of
                  (Inl e, w2) \<Rightarrow> (Inl e, w2)
                | (Inr u, w2) \<Rightarrow>
                    (case for_each (copy_step E) other_files w2 of
                       (Inl e, w3) \<Rightarrow> (Inl e, w3)
                     | (Inr u', w3) \<Rightarrow>
                         (Inr (),
                          print (Done (length pdf_files) (length other_files)
                                   (OUTPUT_FOLDER E)) w3)))))"

text \<open>
  The \<^verbatim>\<open>finally\<close> clause: the temporary file is unlinked whatever the \<^verbatim>\<open>try\<close> block
  did; an error of the clause itself replaces the block's outcome.
\<close>

definition finally_unlink :: "env \<Rightarrow> unit result \<times> world \<Rightarrow> unit result \<times> world" where
  "finally_unlink E rw =
     (case rw of (r, w) \<Rightarrow>
        (case unlink (tmp_name E) True (files w) of
           Inl e \<Rightarrow> (Inl e, w)
         | Inr fs' \<Rightarrow> (r, w\<lparr>files := fs'\<rparr>)))"

definition main :: "env \<Rightarrow> 'p pdflib \<Rightarrow> world \<Rightarrow> unit result \<times> world" where
  "main E L w =
     (if \<not> is_dir (files w) (SOURCE_FOLDER E)
      then (Inl (SystemExit ''Source folder not found: '' (SOURCE_FOLDER E)), w)
      else
        (let all_files = all_files_of (files w) (SOURCE_FOLDER E);
             pdf_files = pdf_files_of all_files;
             other_files = other_files_of all_files
         in if all_files = [] then (Inr (), print (NoFilesFound (SOURCE_FOLDER E)) w)
            else (case NamedTemporaryFile E (files w) of
                    Inl e \<Rightarrow> (Inl e, w)
                  | Inr fs1 \<Rightarrow>
                      finally_unlink E
                        (try_block E L pdf_files other_files (w\<lparr>files := fs1\<rparr>)))))"

text \<open>
  The exit status of the process: 0 on a normal return, 1 when an exception (also
  \<^verbatim>\<open>SystemExit\<close> with a message) leaves \<^verbatim>\<open>main\<close>.
\<close>

definition exit_status :: "unit result \<Rightarrow> nat" where
  "exit_status r = (case r of Inr u \<Rightarrow> 0 | Inl e \<Rightarrow> 1)"

section \<open>Notions used by the statements\<close>

text \<open>
  The extension test in the specification's words: the suffix is exactly \<^verbatim>\<open>.pdf\<close>, in any
  letter case.
\<close>

definition pdf_extension :: "string \<Rightarrow> bool" where
  "pdf_extension s \<longleftrightarrow>
     s \<in> {''.pdf'', ''.pdF'', ''.pDf'', ''.pDF'', ''.Pdf'', ''.PdF'', ''.PDf'', ''.PDF''}"

text \<open>
  The transform the specification describes: independent scale factors, or the identity
  for a stamp without positive extent.
\<close>

definition fit_transform :: "'p pdflib \<Rightarrow> 'p \<Rightarrow> 'p \<Rightarrow> Transformation" where
  "fit_transform L stamp_page content_page =
     (if mediabox_width L stamp_page \<le> 0 \<or> mediabox_height L stamp_page \<le> 0
      then Ctm 1 0 0 1 0 0
      else Ctm (mediabox_width L content_page / mediabox_width L stamp_page) 0 0
               (mediabox_height L content_page / mediabox_height L stamp_page) 0 0)"





definition file_steps :: "path list \<Rightarrow> (path + path) list" where
  "file_steps all_files = map Inl (pdf_files_of all_files) @ map Inr (other_files_of all_files)"






section \<open>Example runs\<close>

text \<open>
  A small instance of the library: a file parses when it starts with \<^verbatim>\<open>%PDF\<close>, every
  further byte is one A4 page; a page records how many overlays it carries.
\<close>

type_synonym ex_page = "real \<times> real \<times> nat"

definition ex_lib :: "ex_page pdflib" where
  "ex_lib = \<lparr>
     reader_pages = (\<lambda>c. if take 4 c = ''%PDF'' then Inr (map (\<lambda>b. (595, 842, 0)) (drop 4 c))
                          else Inl PdfReadError),
     mediabox_width = (\<lambda>(w, h, n). w),
     mediabox_height = (\<lambda>(w, h, n). h),
     merge_transformed_page = (\<lambda>(w, h, n) stamp t. (w, h, Suc n)),
     writer_write = (\<lambda>ps. ''%PDF'' @ map (\<lambda>p. CHR ''w'') ps),
     canvas_save = (\<lambda>size ops. ''%PDFs'')\<rparr>"

definition ex_stat :: stat where
  "ex_stat = \<lparr>st_mode = 420, st_atime = 1, st_mtime = 2\<rparr>"

definition ex_env :: env where
  "ex_env = \<lparr>script_dir = [''home''], tmp_name = [''tmp'', ''tmpa1.pdf''],
             fresh_stat = \<lparr>st_mode = 384, st_atime = 9, st_mtime = 9\<rparr>\<rparr>"

text \<open>The scenario of the specification: two PDF files (one in a subfolder) and an image.\<close>

definition ex_world :: world where
  "ex_world = \<lparr>files =
      [([''home''], Dir), ([''tmp''], Dir), ([''home'', ''docs''], Dir),
       ([''home'', ''docs'', ''a.pdf''], File ''%PDFxy'' ex_stat),
       ([''home'', ''docs'', ''b.jpg''], File ''JPG'' ex_stat),
       ([''home'', ''docs'', ''sub''], Dir),
       ([''home'', ''docs'', ''sub'', ''c.PDF''], File ''%PDFz'' ex_stat)],
     stdout = []\<rparr>"



text \<open>No source folder; a source folder holding only a subfolder; a list of paths.\<close>

definition ex_nosrc :: world where
  "ex_nosrc = \<lparr>files = [([''home''], Dir), ([''tmp''], Dir)], stdout = []\<rparr>"

definition ex_empty :: world where
  "ex_empty = \<lparr>files = [([''home''], Dir), ([''tmp''], Dir), ([''home'', ''docs''], Dir),
                        ([''home'', ''docs'', ''sub''], Dir)], stdout = []\<rparr>"

definition ex_list :: "path list" where
  "ex_list = [[''docs'', ''a.pdf''], [''docs'', ''b.jpg''], [''docs'', ''sub'', ''c.PDF''],
              [''docs'', ''README''], [''docs'', ''.pdf'']]"

section \<open>Facts about names and extensions\<close>

lemmas lower_defs = str_lower_def char_lower_def ascii_uppercase_def ascii_lowercase_def

lemma char_lower_dot: "char_lower c = CHR ''.'' \<longleftrightarrow> c = CHR ''.''"
  by (simp add: char_lower_def ascii_uppercase_def ascii_lowercase_def)

lemma char_lower_p: "char_lower c = CHR ''p'' \<longleftrightarrow> c = CHR ''p'' \<or> c = CHR ''P''"
  by (simp add: char_lower_def ascii_uppercase_def ascii_lowercase_def)

lemma char_lower_d: "char_lower c = CHR ''d'' \<longleftrightarrow> c = CHR ''d'' \<or> c = CHR ''D''"
  by (simp add: char_lower_def ascii_uppercase_def ascii_lowercase_def)

lemma char_lower_f: "char_lower c = CHR ''f'' \<longleftrightarrow> c = CHR ''f'' \<or> c = CHR ''F''"
  by (simp add: char_lower_def ascii_uppercase_def ascii_lowercase_def)

lemma str_lower_pdf_iff:
  "str_lower s = ''.pdf'' \<longleftrightarrow>
     (\<exists>a b c. s = [CHR ''.'', a, b, c] \<and> a \<in> {CHR ''p'', CHR ''P''} \<and> b \<in> {CHR ''d'', CHR ''D''} \<and> c \<in> {CHR ''f'', CHR ''F''})"
  unfolding str_lower_def
  by (auto simp: map_eq_Cons_conv char_lower_dot char_lower_p char_lower_d char_lower_f)

lemma rfind_nonneg_iff: "0 \<le> rfind s c \<longleftrightarrow> c \<in> set s"
  by (induction s) (auto simp: Let_def)

lemma rfind_append: "c \<notin> set ys \<Longrightarrow> rfind (xs @ c # ys) c = int (length xs)"
  apply (induction xs) 
  using rfind_nonneg_iff[of ys c]
   apply (auto simp: Let_def )
  done

lemma rfind_ge: "rfind s c \<ge> -1" by (induction s) (auto simp: Let_def)

lemma rfind_absent: "c \<notin> set s \<Longrightarrow> rfind s c = -1"
  using rfind_nonneg_iff[of s c] rfind_ge[of s c] by linarith

lemma name_suffix_no_dot: "CHR ''.'' \<notin> set name \<Longrightarrow> name_suffix name = []"
  by (simp add: name_suffix_def rfind_absent)

lemma name_suffix_stem:
  assumes "stem \<noteq> []" "str_lower ext = ''.pdf''"
  shows "name_suffix (stem @ ext) = ext"
proof -
  from assms(2) obtain a b c where e: "ext = [CHR ''.'', a, b, c]"
    and "a \<in> {CHR ''p'', CHR ''P''}" "b \<in> {CHR ''d'', CHR ''D''}" "c \<in> {CHR ''f'', CHR ''F''}"
    unfolding str_lower_pdf_iff by blast
  then have nd: "CHR ''.'' \<notin> set [a, b, c]" by auto
  have "rfind (stem @ CHR ''.'' # [a, b, c]) (CHR ''.'') = int (length stem)"
    by (rule rfind_append[OF nd])
  with assms(1) show ?thesis by (simp add: name_suffix_def e)
qed

lemma pdf_extension_iff: "pdf_extension s \<longleftrightarrow> str_lower s = ''.pdf''"
  unfolding str_lower_pdf_iff pdf_extension_def by auto

lemma is_pdf_iff: "is_pdf p \<longleftrightarrow> pdf_extension (suffix_of p)"
  by (simp add: is_pdf_def pdf_extension_iff)

lemma set_pdf_files_of: "p \<in> set (pdf_files_of xs) \<longleftrightarrow> p \<in> set xs \<and> is_pdf p"
  by (simp add: pdf_files_of_def)

lemma set_other_files_of: "p \<in> set (other_files_of xs) \<longleftrightarrow> p \<in> set xs \<and> \<not> is_pdf p"
  by (auto simp: other_files_of_def pdf_files_of_def)

lemma other_files_of_filter: "other_files_of xs = [p \<leftarrow> xs. \<not> is_pdf p]"
  unfolding other_files_of_def pdf_files_of_def by (rule filter_cong) auto


section \<open>Facts about the page loop\<close>

lemma scale_stamp_to_page_fit: "scale_stamp_to_page L s c = Inr (fit_transform L s c)"
  by (simp add: scale_stamp_to_page_def fit_transform_def truediv_def Transformation_new_def Let_def)

lemma merge_pages_map:
  "merge_pages L s pages writer =
     Inr (writer @ map (\<lambda>p. merge_transformed_page L p s (fit_transform L s p)) pages)"
  by (induction pages arbitrary: writer) (simp_all add: scale_stamp_to_page_fit)

section \<open>Facts about the filesystem operations and the loops\<close>

declare mkdir_parents.simps [simp del]

lemma lookup_Nil [simp]: "lookup fs [] = Some Dir"
  by (simp add: lookup_def)

lemma lookup_update: "p \<noteq> [] \<Longrightarrow> lookup (AList.update p n fs) q = (if q = p then Some n else lookup fs q)"
  by (simp add: lookup_def update_conv')


lemma lookup_None_nonempty: "lookup fs p = None \<Longrightarrow> p \<noteq> []"
  by (auto simp: lookup_def)

lemma lookup_File_nonempty: "lookup fs p = Some (File c st) \<Longrightarrow> p \<noteq> []"
  by (auto simp: lookup_def)

lemma is_file_iff: "is_file fs p \<longleftrightarrow> (\<exists>c st. lookup fs p = Some (File c st))"
  by (auto simp: is_file_def split: option.splits node.splits)

lemma os_mkdir_Inr:
  "os_mkdir p fs = Inr fs' \<Longrightarrow>
     lookup fs p = None \<and> is_dir fs (butlast p) \<and> (\<forall>q. lookup fs' q = (if q = p then Some Dir else lookup fs q))"
  by (auto simp: os_mkdir_def is_dir_def lookup_update dest: lookup_None_nonempty split: if_splits option.splits node.splits)





lemma mkdir_exist_ok_is_dir: "mkdir_exist_ok p fs = (Inr u, fs') \<Longrightarrow> is_dir fs' p"
  by (auto simp: mkdir_exist_ok_def is_dir_def dest!: os_mkdir_Inr split: sum.splits if_splits)

lemma mkdir_parents_unfold_Inr: "os_mkdir p fs = Inr fs1 \<Longrightarrow> mkdir_parents p fs = (Inr (), fs1)"
  by (subst mkdir_parents.simps) simp

lemma mkdir_parents_unfold_stop:
  "os_mkdir p fs = Inl e \<Longrightarrow> \<not> (e = FileNotFoundError \<and> p \<noteq> []) \<Longrightarrow>
     mkdir_parents p fs = (if e \<noteq> FileNotFoundError \<and> is_dir fs p then (Inr (), fs) else (Inl e, fs))"
  by (subst mkdir_parents.simps) auto

lemma mkdir_parents_unfold_rec:
  "os_mkdir p fs = Inl FileNotFoundError \<Longrightarrow> p \<noteq> [] \<Longrightarrow>
     mkdir_parents p fs =
       (case mkdir_parents (butlast p) fs of
          (Inl e', fs1) \<Rightarrow> (Inl e', fs1)
        | (Inr u, fs1) \<Rightarrow> mkdir_exist_ok p fs1)"
  by (subst mkdir_parents.simps) simp


lemma mkdir_parents_is_dir: "mkdir_parents p fs = (Inr u, fs') \<Longrightarrow> is_dir fs' p"
proof -
  assume a: "mkdir_parents p fs = (Inr u, fs')"
  show ?thesis
  proof (cases "os_mkdir p fs")
    case (Inr fs1)
    with a show ?thesis by (auto simp: is_dir_def mkdir_parents_unfold_Inr dest!: os_mkdir_Inr)
  next
    case (Inl e)
    show ?thesis
    proof (cases "e = FileNotFoundError \<and> p \<noteq> []")
      case False
      with Inl a show ?thesis by (auto simp: mkdir_parents_unfold_stop split: if_splits)
    next
      case True
      with Inl a show ?thesis
        by (auto simp: mkdir_parents_unfold_rec mkdir_exist_ok_is_dir split: sum.splits prod.splits)
    qed
  qed
qed


lemma open_wb_write_lookup:
  "open_wb_write E p data fs = Inr fs' \<Longrightarrow>
     \<exists>st. \<forall>q. lookup fs' q = (if q = p then Some (File data st) else lookup fs q)"
  by (auto simp: open_wb_write_def lookup_update dest: lookup_None_nonempty lookup_File_nonempty
      split: option.splits node.splits)





















lemma print_files [simp]: "files (print l w) = files w"
  by (simp add: print_def)


























lemma set_all_files_of:
  "p \<in> set (all_files_of fs d) \<longleftrightarrow> strict_prefix d p \<and> is_file fs p"
proof -
  have "is_file fs p \<Longrightarrow> p \<in> fst ` set fs"
    by (auto simp: is_file_iff lookup_def split: if_splits dest!: map_of_SomeD intro: rev_image_eqI)
  then show ?thesis by (auto simp: all_files_of_def rglob_def)
qed






section \<open>Unfolding sets for evaluation\<close>





section \<open>The example runs, evaluated\<close>









section \<open>The claims\<close>



text \<open>
  C2. Every enumerated file takes exactly one route, decided by its extension without
  regard to letter case: with the extension \<^verbatim>\<open>.pdf\<close> it is among the files that are
  watermarked and not among those that are copied, with any other extension (or none) it
  is among the files that are copied and not among those that are watermarked. The
  sequence of steps of the run holds a watermark step for the file in the first case and a
  copy step in the second, and the two lists together are as long as the enumeration.
\<close>

theorem dispatch_by_extension:
  assumes "p \<in> set all_files"
  shows "(pdf_extension (suffix_of p) \<longrightarrow>
            p \<in> set (pdf_files_of all_files) \<and> p \<notin> set (other_files_of all_files)) \<and>
         (\<not> pdf_extension (suffix_of p) \<longrightarrow>
            p \<in> set (other_files_of all_files) \<and> p \<notin> set (pdf_files_of all_files)) \<and>
         (CHR ''.'' \<notin> set (path_name p) \<longrightarrow>
            suffix_of p = [] \<and> p \<in> set (other_files_of all_files)) \<and>
         (Inl p \<in> set (file_steps all_files) \<longleftrightarrow> pdf_extension (suffix_of p)) \<and>
         (Inr p \<in> set (file_steps all_files) \<longleftrightarrow> \<not> pdf_extension (suffix_of p)) \<and>
         length (pdf_files_of all_files) + length (other_files_of all_files) = length all_files"
proof -
  have nd: "suffix_of p = [] \<and> p \<in> set (other_files_of all_files)" if "CHR ''.'' \<notin> set (path_name p)"
  proof -
    from that have "suffix_of p = []" by (simp add: suffix_of_def name_suffix_no_dot)
    then show ?thesis using assms by (simp add: set_other_files_of is_pdf_iff pdf_extension_def)
  qed
  have "length (pdf_files_of all_files) + length (other_files_of all_files) = length all_files"
    unfolding other_files_of_filter pdf_files_of_def by (rule sum_length_filter_compl)
  moreover have "Inl p \<in> set (file_steps all_files) \<longleftrightarrow> pdf_extension (suffix_of p)"
    using assms by (auto simp: file_steps_def set_pdf_files_of is_pdf_iff)
  moreover have "Inr p \<in> set (file_steps all_files) \<longleftrightarrow> \<not> pdf_extension (suffix_of p)"
    using assms by (auto simp: file_steps_def set_other_files_of is_pdf_iff)
  ultimately show ?thesis
    using nd assms by (auto simp: set_pdf_files_of set_other_files_of is_pdf_iff)
qed
theorem dispatch_by_extension_witness:
  "[''docs'', ''sub'', ''c.PDF''] \<in> set ex_list \<and>
   [''docs'', ''sub'', ''c.PDF''] \<in> set (pdf_files_of ex_list) \<and>
   [''docs'', ''sub'', ''c.PDF''] \<notin> set (other_files_of ex_list) \<and>
   [''docs'', ''README''] \<in> set (other_files_of ex_list) \<and>
   [''docs'', ''README''] \<notin> set (pdf_files_of ex_list)"
proof -
  have a: "[''docs'', ''sub'', ''c.PDF''] \<in> set ex_list" and b: "[''docs'', ''README''] \<in> set ex_list"
    by (simp_all add: ex_list_def)
  have "pdf_extension (suffix_of [''docs'', ''sub'', ''c.PDF''])"
    by (simp add: pdf_extension_def suffix_of_def path_name_def name_suffix_def)
  moreover have "\<not> pdf_extension (suffix_of [''docs'', ''README''])"
    by (simp add: pdf_extension_def suffix_of_def path_name_def name_suffix_def)
  ultimately show ?thesis
    using a dispatch_by_extension[OF a] dispatch_by_extension[OF b] by blast
qed

text \<open>
  C3. When the input document parses, the loop of \<^verbatim>\<open>watermark_pdf\<close> returns a document
  with one page per input page, the i-th being the i-th input page merged with the stamp
  under the fit transform; that document is what a successful call writes to the output
  path, and the call succeeds whenever the parent directory can be made and the output
  path is not a directory.
\<close>

theorem watermark_keeps_page_count:
  assumes "PdfReader L input_path fs = Inr pages"
  shows "\<exists>doc. merge_pages L stamp_page pages [] = Inr doc \<and> length doc = length pages \<and>
           (\<forall>i<length pages. \<exists>t. scale_stamp_to_page L stamp_page (pages ! i) = Inr t \<and>
               doc ! i = merge_transformed_page L (pages ! i) stamp_page t) \<and>
           (\<forall>fs'. watermark_pdf E L input_path output_path stamp_page fs = (Inr (), fs') \<longrightarrow>
               (\<exists>st. lookup fs' output_path = Some (File (writer_write L doc) st))) \<and>
           (\<forall>fs1. mkdir_parents (butlast output_path) fs = (Inr (), fs1) \<and>
                \<not> is_dir fs1 output_path \<longrightarrow>
               (\<exists>fs'. watermark_pdf E L input_path output_path stamp_page fs = (Inr (), fs')))"
proof -
  let ?doc = "map (\<lambda>p. merge_transformed_page L p stamp_page (fit_transform L stamp_page p)) pages"
  have m: "merge_pages L stamp_page pages [] = Inr ?doc" by (simp add: merge_pages_map)
  have p: "\<forall>i<length pages. \<exists>t. scale_stamp_to_page L stamp_page (pages ! i) = Inr t \<and>
               ?doc ! i = merge_transformed_page L (pages ! i) stamp_page t"
    by (simp add: scale_stamp_to_page_fit)
  have w: "\<exists>st. lookup fs' output_path = Some (File (writer_write L ?doc) st)"
    if h: "watermark_pdf E L input_path output_path stamp_page fs = (Inr (), fs')" for fs'
  proof -
    obtain r1 fs1 where mk: "mkdir_parents (butlast output_path) fs = (r1, fs1)" by force
    from h assms m mk have "open_wb_write E output_path (writer_write L ?doc) fs1 = Inr fs'"
      by (cases r1; cases "open_wb_write E output_path (writer_write L ?doc) fs1")
         (simp_all add: watermark_pdf_def)
    from open_wb_write_lookup[OF this] show ?thesis by auto
  qed
  have t: "\<exists>fs'. watermark_pdf E L input_path output_path stamp_page fs = (Inr (), fs')"
    if a: "mkdir_parents (butlast output_path) fs = (Inr (), fs1) \<and> \<not> is_dir fs1 output_path" for fs1
  proof -
    from a mkdir_parents_is_dir have "is_dir fs1 (butlast output_path)" by blast
    with a have "\<exists>fs2. open_wb_write E output_path (writer_write L ?doc) fs1 = Inr fs2"
      by (auto simp: open_wb_write_def is_dir_def split: option.splits node.splits)
    then obtain fs2 where "open_wb_write E output_path (writer_write L ?doc) fs1 = Inr fs2" ..
    with a assms m have "watermark_pdf E L input_path output_path stamp_page fs = (Inr (), fs2)"
      by (simp add: watermark_pdf_def)
    then show ?thesis ..
  qed
  show ?thesis
  proof (intro exI[of _ ?doc] conjI)
    show "merge_pages L stamp_page pages [] = Inr ?doc" by (rule m)
    show "length ?doc = length pages" by simp
    show "\<forall>i<length pages. \<exists>t. scale_stamp_to_page L stamp_page (pages ! i) = Inr t \<and>
               ?doc ! i = merge_transformed_page L (pages ! i) stamp_page t" by (rule p)
    show "\<forall>fs'. watermark_pdf E L input_path output_path stamp_page fs = (Inr (), fs') \<longrightarrow>
               (\<exists>st. lookup fs' output_path = Some (File (writer_write L ?doc) st))"
      using w by blast
    show "\<forall>fs1. mkdir_parents (butlast output_path) fs = (Inr (), fs1) \<and>
                \<not> is_dir fs1 output_path \<longrightarrow>
               (\<exists>fs'. watermark_pdf E L input_path output_path stamp_page fs = (Inr (), fs'))"
      using t by blast
  qed
qed
theorem watermark_keeps_page_count_witness:
  "PdfReader ex_lib [''home'', ''docs'', ''a.pdf''] (files ex_world) = Inr [(595, 842, 0), (595, 842, 0)] \<and>
   (\<exists>doc. merge_pages ex_lib (595, 842, 0) [(595, 842, 0), (595, 842, 0)] [] = Inr doc \<and>
          length doc = 2)"
proof -
  have r: "PdfReader ex_lib [''home'', ''docs'', ''a.pdf''] (files ex_world) =
             Inr [(595, 842, 0), (595, 842, 0)]"
    by (simp add: PdfReader_def read_bytes_def lookup_def ex_world_def ex_lib_def)
  from watermark_keeps_page_count[OF r, of "(595, 842, 0)" ex_env "[''x'']"] r
  show ?thesis by auto
qed






text \<open>
  C7. When the source folder is not a directory, \<^verbatim>\<open>main\<close> raises \<^verbatim>\<open>SystemExit\<close> with
  the message naming the folder, the exit status is 1, and the world is as it was: no
  file, no directory and no line of output has been made.
\<close>

theorem missing_source_aborts:
  assumes "\<not> is_dir (files w) (SOURCE_FOLDER E)"
  shows "main E L w = (Inl (SystemExit ''Source folder not found: '' (SOURCE_FOLDER E)), w) \<and>
         exit_status (fst (main E L w)) = 1"
  using assms by (simp add: main_def exit_status_def)
theorem missing_source_aborts_witness:
  "\<not> is_dir (files ex_nosrc) (SOURCE_FOLDER ex_env) \<and>
   main ex_env ex_lib ex_nosrc =
     (Inl (SystemExit ''Source folder not found: '' (SOURCE_FOLDER ex_env)), ex_nosrc) \<and>
   exit_status (fst (main ex_env ex_lib ex_nosrc)) = 1"
proof -
  have h: "\<not> is_dir (files ex_nosrc) (SOURCE_FOLDER ex_env)"
    by (simp add: is_dir_def lookup_def ex_nosrc_def SOURCE_FOLDER_def ex_env_def)
  from missing_source_aborts[OF h, of ex_lib] h show ?thesis by blast
qed



text \<open>
  C9. When the source folder exists and no regular file lies below it, \<^verbatim>\<open>main\<close> prints
  that no files were found and returns normally with exit status 0; the filesystem is
  unchanged, so no temporary file, output folder or output file has been made.
\<close>

theorem empty_source_no_work:
  assumes "is_dir (files w) (SOURCE_FOLDER E)"
    and "\<forall>p. strict_prefix (SOURCE_FOLDER E) p \<longrightarrow> \<not> is_file (files w) p"
  shows "main E L w = (Inr (), w\<lparr>stdout := stdout w @ [NoFilesFound (SOURCE_FOLDER E)]\<rparr>) \<and>
         files (snd (main E L w)) = files w \<and>
         exit_status (fst (main E L w)) = 0"
proof -
  have e: "all_files_of (files w) (SOURCE_FOLDER E) = []"
  proof (cases "all_files_of (files w) (SOURCE_FOLDER E)")
    case Nil
    then show ?thesis .
  next
    case (Cons x xs)
    then have "x \<in> set (all_files_of (files w) (SOURCE_FOLDER E))" by simp
    then have "strict_prefix (SOURCE_FOLDER E) x" "is_file (files w) x"
      by (simp_all add: set_all_files_of)
    with assms(2) show ?thesis by blast
  qed
  have "main E L w = (Inr (), print (NoFilesFound (SOURCE_FOLDER E)) w)"
    using assms(1) e by (simp add: main_def)
  then show ?thesis by (simp add: print_def exit_status_def)
qed
theorem empty_source_no_work_witness:
  "is_dir (files ex_empty) (SOURCE_FOLDER ex_env) \<and>
   main ex_env ex_lib ex_empty =
     (Inr (), ex_empty\<lparr>stdout := stdout ex_empty @ [NoFilesFound (SOURCE_FOLDER ex_env)]\<rparr>) \<and>
   files (snd (main ex_env ex_lib ex_empty)) = files ex_empty"
proof -
  have h1: "is_dir (files ex_empty) (SOURCE_FOLDER ex_env)"
    by (simp add: is_dir_def lookup_def ex_empty_def SOURCE_FOLDER_def ex_env_def)
  have h2: "\<forall>p. strict_prefix (SOURCE_FOLDER ex_env) p \<longrightarrow> \<not> is_file (files ex_empty) p"
    by (simp add: is_file_def lookup_def ex_empty_def SOURCE_FOLDER_def ex_env_def)
  from empty_source_no_work[OF h1 h2, of ex_lib] h1 show ?thesis by blast
qed

text \<open>
  C10. A file whose whole name is \<^verbatim>\<open>.pdf\<close> has the empty suffix, is among the files that
  are copied and is not among those that are watermarked; every enumerated file whose name
  is a non-empty stem followed by \<^verbatim>\<open>.pdf\<close> in any letter case is watermarked.
\<close>

theorem dot_pdf_is_copied:
  assumes "p \<in> set all_files" and "path_name p = ''.pdf''"
  shows "suffix_of p = [] \<and> p \<in> set (other_files_of all_files) \<and>
         p \<notin> set (pdf_files_of all_files) \<and>
         (\<forall>q stem ext. q \<in> set all_files \<and> path_name q = stem @ ext \<and> stem \<noteq> [] \<and>
              str_lower ext = ''.pdf'' \<longrightarrow> q \<in> set (pdf_files_of all_files))"
proof -
  from assms(2) have s: "suffix_of p = []" by (simp add: suffix_of_def name_suffix_def)
  then have "\<not> is_pdf p" by (simp add: is_pdf_def str_lower_def)
  moreover have "q \<in> set (pdf_files_of all_files)"
    if "q \<in> set all_files \<and> path_name q = stem @ ext \<and> stem \<noteq> [] \<and> str_lower ext = ''.pdf''"
    for q stem ext
    using that by (simp add: set_pdf_files_of is_pdf_def suffix_of_def name_suffix_stem)
  ultimately show ?thesis using s assms(1) by (simp add: set_pdf_files_of set_other_files_of) blast
qed
theorem dot_pdf_is_copied_witness:
  "path_name [''docs'', ''.pdf''] = ''.pdf'' \<and>
   [''docs'', ''.pdf''] \<in> set (other_files_of ex_list) \<and>
   [''docs'', ''.pdf''] \<notin> set (pdf_files_of ex_list) \<and>
   [''docs'', ''a.pdf''] \<in> set (pdf_files_of ex_list)"
proof -
  have a: "[''docs'', ''.pdf''] \<in> set ex_list" by (simp add: ex_list_def)
  have b: "path_name [''docs'', ''.pdf''] = ''.pdf''" by (simp add: path_name_def)
  have c: "[''docs'', ''a.pdf''] \<in> set ex_list \<and> path_name [''docs'', ''a.pdf''] = ''a'' @ ''.pdf'' \<and>
           ''a'' \<noteq> [] \<and> str_lower ''.pdf'' = ''.pdf''"
    by (simp add: ex_list_def path_name_def lower_defs)
  from dot_pdf_is_copied[OF a b] c b show ?thesis by blast
qed

end
